theory Spec2Isabelle
  imports Complex_Main "HOL-Library.AList" "HOL-Library.Char_ord" "HOL-Library.List_Lexorder"
begin

section \<open>Python values\<close>

text \<open>
  The engine of \<^verbatim>\<open>task-scheduling-tools/stackstorm/workflow_engine.py\<close> works on what
  \<^verbatim>\<open>yaml.safe_load\<close> and \<^verbatim>\<open>request.json\<close> hand it: \<^verbatim>\<open>None\<close>, booleans, integers,
  strings, lists and dicts. Dict keys are strings here (the engine only ever looks up string
  keys); floats are outside the model, and strings are ASCII.
\<close>

datatype yaml =
    YNone
  | YBool bool
  | YInt int
  | YStr string
  | YList "yaml list"
  | YDict "(string \<times> yaml) list"

text \<open>
  Exceptions carry their class and the text that \<^verbatim>\<open>str(e)\<close> gives. \<open>PlainException\<close> is
  \<^verbatim>\<open>Exception(...)\<close> itself; \<open>External\<close> stands for what the libraries raise
  (\<^verbatim>\<open>OSError\<close>, \<^verbatim>\<open>requests.RequestException\<close>, \<^verbatim>\<open>yaml.YAMLError\<close>). Every class
  here derives from \<^verbatim>\<open>Exception\<close>, so \<^verbatim>\<open>except Exception\<close> catches it. Texts of exceptions
  raised by the interpreter are worded as CPython 3.11 words them.
\<close>

datatype exc_class =
  ValueError | TypeError | AttributeError | KeyError | PlainException | TimeoutExpired | External

datatype exc = Raise exc_class string

fun exc_class_of :: "exc \<Rightarrow> exc_class" where
  "exc_class_of (Raise c m) = c"

fun str_exc :: "exc \<Rightarrow> string" where
  "str_exc (Raise c m) = m"

definition sq :: "string \<Rightarrow> string" where
  \<comment> \<open>the text between two single quotes\<close>
  "sq s = [CHR 0x27] @ s @ [CHR 0x27]"

fun py_type :: "yaml \<Rightarrow> string" where
  "py_type YNone = ''NoneType''"
| "py_type (YBool b) = ''bool''"
| "py_type (YInt i) = ''int''"
| "py_type (YStr s) = ''str''"
| "py_type (YList xs) = ''list''"
| "py_type (YDict kvs) = ''dict''"

subsection \<open>Formatting: \<^verbatim>\<open>str\<close>, \<^verbatim>\<open>repr\<close> and f-strings\<close>

definition digit_char :: "nat \<Rightarrow> char" where
  "digit_char n = ''0123456789abcdef'' ! (n mod 16)"

function show_nat :: "nat \<Rightarrow> string" where
  "show_nat n = (if n < 10 then [digit_char n] else show_nat (n div 10) @ [digit_char (n mod 10)])"
  by pat_completeness auto
termination
  by (relation "measure id") auto

declare show_nat.simps [simp del]

definition show_int :: "int \<Rightarrow> string" where
  "show_int i = (if i < 0 then ''-'' @ show_nat (nat (- i)) else show_nat (nat i))"

definition repr_char :: "char \<Rightarrow> char \<Rightarrow> string" where
  \<comment> \<open>one character inside \<^verbatim>\<open>repr\<close> of a string whose delimiter is \<open>q\<close>\<close>
  "repr_char q c =
     (if c = q \<or> c = CHR 0x5C then [CHR 0x5C, c]
      else if c = CHR 0x09 then [CHR 0x5C, CHR ''t'']
      else if c = CHR 0x0A then [CHR 0x5C, CHR ''n'']
      else if c = CHR 0x0D then [CHR 0x5C, CHR ''r'']
      else if (of_char c :: nat) < 32 \<or> (of_char c :: nat) = 127
        then [CHR 0x5C, CHR ''x'', digit_char (of_char c div 16), digit_char (of_char c mod 16)]
      else [c])"

definition repr_str :: "string \<Rightarrow> string" where
  "repr_str s =
     (let q = (if CHR 0x27 \<in> set s \<and> CHR 0x22 \<notin> set s then CHR 0x22 else CHR 0x27)
      in [q] @ concat (map (repr_char q) s) @ [q])"

fun join :: "string \<Rightarrow> string list \<Rightarrow> string" where
  "join sep [] = []"
| "join sep [x] = x"
| "join sep (x # y # ys) = x @ sep @ join sep (y # ys)"

fun py_repr :: "yaml \<Rightarrow> string" where
  "py_repr YNone = ''None''"
| "py_repr (YBool b) = (if b then ''True'' else ''False'')"
| "py_repr (YInt i) = show_int i"
| "py_repr (YStr s) = repr_str s"
| "py_repr (YList xs) = ''['' @ join '', '' (map py_repr xs) @ '']''"
| "py_repr (YDict kvs) =
     ''{'' @ join '', '' (map (\<lambda>kv. repr_str (fst kv) @ '': '' @ py_repr (snd kv)) kvs) @ ''}''"

fun py_str :: "yaml \<Rightarrow> string" where
  \<comment> \<open>what \<^verbatim>\<open>{v}\<close> inside an f-string gives\<close>
  "py_str (YStr s) = s"
| "py_str v = py_repr v"

subsection \<open>Truth, numbers, keys, attribute and item access\<close>

fun py_truthy :: "yaml \<Rightarrow> bool" where
  "py_truthy YNone = False"
| "py_truthy (YBool b) = b"
| "py_truthy (YInt i) = (i \<noteq> 0)"
| "py_truthy (YStr s) = (s \<noteq> [])"
| "py_truthy (YList xs) = (xs \<noteq> [])"
| "py_truthy (YDict kvs) = (kvs \<noteq> [])"

definition py_or :: "yaml \<Rightarrow> yaml \<Rightarrow> yaml" where
  "py_or a b = (if py_truthy a then a else b)"

fun py_num :: "yaml \<Rightarrow> int option" where
  \<comment> \<open>the values Python treats as numbers; \<^verbatim>\<open>True\<close> is 1 and \<^verbatim>\<open>False\<close> is 0\<close>
  "py_num (YBool b) = Some (if b then 1 else 0)"
| "py_num (YInt i) = Some i"
| "py_num v = None"

fun dict_key :: "yaml \<Rightarrow> exc + yaml" where
  \<comment> \<open>hashing a value for use as a dict key: containers are unhashable; a dict finds
      \<^verbatim>\<open>True\<close> under \<^verbatim>\<open>1\<close> and \<^verbatim>\<open>False\<close> under \<^verbatim>\<open>0\<close>, so keys are kept as the integer\<close>
  "dict_key (YList xs) = Inl (Raise TypeError (''unhashable type: '' @ sq ''list''))"
| "dict_key (YDict kvs) = Inl (Raise TypeError (''unhashable type: '' @ sq ''dict''))"
| "dict_key (YBool b) = Inr (YInt (if b then 1 else 0))"
| "dict_key v = Inr v"

definition py_eq_name :: "yaml \<Rightarrow> yaml \<Rightarrow> bool" where
  \<comment> \<open>\<^verbatim>\<open>e['workflow_name'] == target\<close>: the left operand is a name that passed the catalog
      lookup, hence hashable; a container on the right equals none of them\<close>
  "py_eq_name a b =
     (case dict_key b of Inl e \<Rightarrow> False | Inr k \<Rightarrow> dict_key a = Inr k)"

definition get :: "(string \<times> yaml) list \<Rightarrow> string \<Rightarrow> yaml \<Rightarrow> yaml" where
  \<comment> \<open>\<^verbatim>\<open>d.get(key, default)\<close> on a dict\<close>
  "get d key dflt = (case map_of d key of Some v \<Rightarrow> v | None \<Rightarrow> dflt)"

fun py_get :: "yaml \<Rightarrow> string \<Rightarrow> yaml \<Rightarrow> exc + yaml" where
  \<comment> \<open>\<^verbatim>\<open>obj.get(key, default)\<close> on any value: only a dict has the method\<close>
  "py_get (YDict d) key dflt = Inr (get d key dflt)"
| "py_get v key dflt =
     Inl (Raise AttributeError (sq (py_type v) @ '' object has no attribute '' @ sq ''get''))"

fun py_subscript :: "yaml \<Rightarrow> string \<Rightarrow> exc + yaml" where
  \<comment> \<open>\<^verbatim>\<open>obj[key]\<close> with a string key\<close>
  "py_subscript (YDict d) key =
     (case map_of d key of Some v \<Rightarrow> Inr v | None \<Rightarrow> Inl (Raise KeyError (sq key)))"
| "py_subscript (YStr s) key =
     Inl (Raise TypeError (''string indices must be integers, not '' @ sq ''str''))"
| "py_subscript (YList xs) key =
     Inl (Raise TypeError ''list indices must be integers or slices, not str'')"
| "py_subscript v key =
     Inl (Raise TypeError (sq (py_type v) @ '' object is not subscriptable''))"

fun py_iter :: "yaml \<Rightarrow> exc + yaml list" where
  \<comment> \<open>the items a \<^verbatim>\<open>for\<close> loop over the value visits\<close>
  "py_iter (YList xs) = Inr xs"
| "py_iter (YStr s) = Inr (map (\<lambda>c. YStr [c]) s)"
| "py_iter (YDict d) = Inr (map (\<lambda>kv. YStr (fst kv)) d)"
| "py_iter v = Inl (Raise TypeError (sq (py_type v) @ '' object is not iterable''))"

definition py_upper :: "string \<Rightarrow> string" where
  "py_upper s =
     map (\<lambda>c. if (97::nat) \<le> of_char c \<and> (of_char c :: nat) \<le> 122
              then char_of ((of_char c :: nat) - 32) else c) s"

definition py_int :: "rat \<Rightarrow> int" where
  \<comment> \<open>\<^verbatim>\<open>int(x)\<close> of a real number: truncation towards zero\<close>
  "py_int x = (if 0 \<le> x then \<lfloor>x\<rfloor> else \<lceil>x\<rceil>)"

definition py_slice_from :: "int \<Rightarrow> 'a list \<Rightarrow> 'a list" where
  \<comment> \<open>\<^verbatim>\<open>xs[i:]\<close>: a negative start counts from the end, and the start is clamped to the list\<close>
  "py_slice_from i xs =
     (let n = int (length xs);
          start = (if i < 0 then max 0 (n + i) else min i n)
      in drop (nat start) xs)"

fun py_max_by :: "('a \<Rightarrow> 'k::linorder) \<Rightarrow> 'a \<Rightarrow> 'a list \<Rightarrow> 'a" where
  \<comment> \<open>\<^verbatim>\<open>max(best :: xs, key=key)\<close>: the running maximum is replaced only by a strictly
      greater item\<close>
  "py_max_by key best [] = best"
| "py_max_by key best (x # xs) = py_max_by key (if key best < key x then x else best) xs"

fun py_max :: "('a \<Rightarrow> 'k::linorder) \<Rightarrow> 'a list \<Rightarrow> 'a option" where
  "py_max key [] = None"
| "py_max key (x # xs) = Some (py_max_by key x xs)"


section \<open>The world outside the engine\<close>

text \<open>
  The engine reads two clocks, sleeps, runs shell commands and sends HTTP requests. What
  the world answers is a parameter: the \<open>n\<close>-th interaction of a run gets the answer
  stored under \<open>n\<close>, and the engine state counts the interactions in \<open>tick\<close>.
\<close>

datatype proc =
    Exits rat string string int  \<comment> \<open>the child exits after so many seconds, with stdout, stderr, return code\<close>
  | Hangs  \<comment> \<open>the child never exits\<close>
  | Cannot_run exc  \<comment> \<open>\<^verbatim>\<open>subprocess.run\<close> itself raises\<close>

datatype response = Response int "(string \<times> string) list" string
  \<comment> \<open>\<^verbatim>\<open>status_code\<close>, \<^verbatim>\<open>headers\<close>, \<^verbatim>\<open>text\<close>\<close>

record world =
  time_time :: "nat \<Rightarrow> rat"
  datetime_now :: "nat \<Rightarrow> string"
  child :: "nat \<Rightarrow> yaml \<Rightarrow> proc"
  requests_request :: "nat \<Rightarrow> string \<Rightarrow> yaml \<Rightarrow> yaml \<Rightarrow> yaml \<Rightarrow> exc + response"

definition subprocess_run :: "proc \<Rightarrow> rat \<Rightarrow> exc + string \<times> string \<times> int" where
  \<comment> \<open>\<^verbatim>\<open>subprocess.run(..., capture_output=True, text=True, timeout=t)\<close>: the library raises
      \<^verbatim>\<open>TimeoutExpired\<close> when the child has not exited after \<open>t\<close> seconds\<close>
  "subprocess_run p t =
     (case p of
        Exits d out err rc \<Rightarrow>
          if d \<le> t then Inr (out, err, rc) else Inl (Raise TimeoutExpired ''timed out'')
      | Hangs \<Rightarrow> Inl (Raise TimeoutExpired ''timed out'')
      | Cannot_run e \<Rightarrow> Inl e)"

section \<open>The engine's data\<close>

datatype status = Running | Completed | Failed
  \<comment> \<open>the strings \<^verbatim>\<open>'running'\<close>, \<^verbatim>\<open>'completed'\<close>, \<^verbatim>\<open>'failed'\<close>\<close>

record step_result =
  sr_name :: yaml
  sr_action :: yaml
  sr_start_time :: string
  sr_success :: bool
  sr_output :: yaml
  sr_error :: string
  sr_end_time :: "string option"

text \<open>
  An execution is the dict built in \<^verbatim>\<open>execute_workflow\<close>; the keys \<^verbatim>\<open>end_time\<close> and
  \<^verbatim>\<open>error\<close> are absent until they are assigned.
\<close>

record execution =
  ex_id :: string
  ex_workflow_name :: yaml
  ex_status :: status
  ex_start_time :: string
  ex_parameters :: yaml
  ex_steps :: "step_result list"
  ex_logs :: "string list"
  ex_end_time :: "string option"
  ex_error :: "string option"

text \<open>
  The state of one \<^verbatim>\<open>WorkflowEngine\<close>: the catalog \<^verbatim>\<open>self.workflows\<close> (a dict, kept as
  an association list under the keys \<^const>\<open>dict_key\<close> gives), the history
  \<^verbatim>\<open>self.executions\<close>, the threads started so far (target and parameters, in start order),
  the lines handed to the logger, and the count of interactions with the world. The model
  follows one thread of control: a started thread is recorded, not run.
\<close>

record state =
  workflows :: "(yaml \<times> yaml) list"
  executions :: "execution list"
  threads :: "(yaml \<times> yaml) list"
  logged :: "(string \<times> string) list"
  tick :: nat

definition logger_info :: "string \<Rightarrow> state \<Rightarrow> state" where
  "logger_info msg s = s\<lparr>logged := logged s @ [(''INFO'', msg)]\<rparr>"

definition logger_error :: "string \<Rightarrow> state \<Rightarrow> state" where
  "logger_error msg s = s\<lparr>logged := logged s @ [(''ERROR'', msg)]\<rparr>"

definition read_time :: "world \<Rightarrow> state \<Rightarrow> rat \<times> state" where
  \<comment> \<open>\<^verbatim>\<open>time.time()\<close>\<close>
  "read_time w s = (time_time w (tick s), s\<lparr>tick := Suc (tick s)\<rparr>)"

definition now_isoformat :: "world \<Rightarrow> state \<Rightarrow> string \<times> state" where
  \<comment> \<open>\<^verbatim>\<open>datetime.now().isoformat()\<close>\<close>
  "now_isoformat w s = (datetime_now w (tick s), s\<lparr>tick := Suc (tick s)\<rparr>)"

definition time_sleep :: "yaml \<Rightarrow> state \<Rightarrow> exc + state" where
  \<comment> \<open>\<^verbatim>\<open>time.sleep(x)\<close>: a number that is not negative, or an exception\<close>
  "time_sleep x s =
     (case py_num x of
        None \<Rightarrow> Inl (Raise TypeError (sq (py_type x) @ '' object cannot be interpreted as an integer''))
      | Some n \<Rightarrow>
          if n < 0 then Inl (Raise ValueError ''sleep length must be non-negative'')
          else Inr (s\<lparr>tick := Suc (tick s)\<rparr>))"

definition update_execution :: "nat \<Rightarrow> (execution \<Rightarrow> execution) \<Rightarrow> state \<Rightarrow> state" where
  \<comment> \<open>an assignment through the reference \<^verbatim>\<open>execution\<close>, which is the \<open>idx\<close>-th entry of the history\<close>
  "update_execution idx f s = s\<lparr>executions := (executions s)[idx := f (executions s ! idx)]\<rparr>"

section \<open>Step executors\<close>

definition execute_shell_command :: "world \<Rightarrow> yaml \<Rightarrow> state \<Rightarrow> (exc + yaml) \<times> state" where
  "execute_shell_command w command s =
     (let s1 = s\<lparr>tick := Suc (tick s)\<rparr>
      in case subprocess_run (child w (tick s) command) 30 of
           Inr (out, err, rc) \<Rightarrow>
             (Inr (YDict [(''stdout'', YStr out), (''stderr'', YStr err), (''returncode'', YInt rc)]), s1)
         | Inl e \<Rightarrow>
             if exc_class_of e = TimeoutExpired
             then (Inl (Raise PlainException ''Command timed out''), s1)
             else (Inl e, s1))"

definition execute_http_request :: "world \<Rightarrow> (string \<times> yaml) list \<Rightarrow> state \<Rightarrow> (exc + yaml) \<times> state" where
  "execute_http_request w step s =
     (let url = get step ''url'' YNone
      in case get step ''method'' (YStr ''GET'') of
           YStr m \<Rightarrow>
             (let method = py_upper m;
                  headers = get step ''headers'' (YDict []);
                  data = get step ''data'' (YDict []);
                  json = (if method \<in> set [''POST'', ''PUT'', ''PATCH''] then data else YNone);
                  s1 = s\<lparr>tick := Suc (tick s)\<rparr>
              in case requests_request w (tick s) method url headers json of
                   Inl e \<Rightarrow> (Inl e, s1)
                 | Inr (Response code hs text) \<Rightarrow>
                     (Inr (YDict [(''status_code'', YInt code),
                                  (''headers'', YDict (map (\<lambda>kv. (fst kv, YStr (snd kv))) hs)),
                                  (''body'', YStr (take 1000 text))]), s1))
         | v \<Rightarrow> (Inl (Raise AttributeError
                    (sq (py_type v) @ '' object has no attribute '' @ sq ''upper'')), s))"

definition latest_execution :: "execution list \<Rightarrow> yaml \<Rightarrow> execution option" where
  \<comment> \<open>lines 163 to 165: the executions of the target name, and of them
      \<^verbatim>\<open>max(recent_executions, key=lambda x: x['start_time'])\<close>\<close>
  "latest_execution history target_workflow =
     py_max ex_start_time (filter (\<lambda>e. py_eq_name (ex_workflow_name e) target_workflow) history)"

definition loop_test :: "rat \<Rightarrow> rat \<Rightarrow> yaml \<Rightarrow> exc + bool" where
  \<comment> \<open>the loop test \<^verbatim>\<open>time.time() - start_time < timeout_seconds\<close>\<close>
  "loop_test t start_time timeout_seconds =
     (case py_num timeout_seconds of
        None \<Rightarrow> Inl (Raise TypeError (sq ''<'' @ '' not supported between instances of ''
                        @ sq ''float'' @ '' and '' @ sq (py_type timeout_seconds)))
      | Some n \<Rightarrow> Inr (t - start_time < of_int n))"

definition check_target :: "execution list \<Rightarrow> yaml \<Rightarrow> (exc + yaml) option" where
  \<comment> \<open>lines 163 to 169, one look at the history: \<open>Some\<close> is the \<^verbatim>\<open>return\<close> or the
      \<^verbatim>\<open>raise\<close>, \<open>None\<close> falls through to the \<^verbatim>\<open>time.sleep\<close>\<close>
  "check_target history target_workflow =
     (case latest_execution history target_workflow of
        None \<Rightarrow> None
      | Some latest \<Rightarrow>
          if ex_status latest = Completed then
            (case ex_end_time latest of
               None \<Rightarrow> Some (Inl (Raise KeyError (sq ''end_time'')))
             | Some end_time \<Rightarrow>
                 Some (Inr (YStr (''Workflow '' @ sq (py_str target_workflow)
                         @ '' completed successfully at '' @ end_time))))
          else if ex_status latest = Failed then
            Some (Inl (Raise PlainException
              (''Workflow '' @ sq (py_str target_workflow) @ '' failed'')))
          else None)"

fun poll :: "world \<Rightarrow> nat \<Rightarrow> yaml \<Rightarrow> yaml \<Rightarrow> yaml \<Rightarrow> rat \<Rightarrow> state \<Rightarrow> ((exc + yaml) \<times> state) option" where
  \<comment> \<open>the \<^verbatim>\<open>while\<close> loop of \<^verbatim>\<open>wait_for_workflow_completion\<close> and the \<^verbatim>\<open>raise\<close> after it;
      the number bounds how often the loop condition is tested, and \<open>None\<close> is a loop
      that is still running when the bound is used up\<close>
  "poll w 0 target_workflow timeout_seconds check_interval start_time s = None"
| "poll w (Suc fuel) target_workflow timeout_seconds check_interval start_time s =
     (let (t, s1) = read_time w s
      in case loop_test t start_time timeout_seconds of
           Inl e \<Rightarrow> Some (Inl e, s1)
         | Inr False \<Rightarrow>
             Some (Inl (Raise PlainException
               (''Timeout waiting for workflow '' @ sq (py_str target_workflow) @ '' to complete'')), s1)
         | Inr True \<Rightarrow>
             (case check_target (executions s1) target_workflow of
                Some r \<Rightarrow> Some (r, s1)
              | None \<Rightarrow>
                  (case time_sleep check_interval s1 of
                     Inl e \<Rightarrow> Some (Inl e, s1)
                   | Inr s2 \<Rightarrow>
                       poll w fuel target_workflow timeout_seconds check_interval start_time s2)))"

definition wait_for_workflow_completion ::
  "world \<Rightarrow> nat \<Rightarrow> (string \<times> yaml) list \<Rightarrow> state \<Rightarrow> ((exc + yaml) \<times> state) option" where
  "wait_for_workflow_completion w fuel step s =
     (let target_workflow = get step ''workflow_name'' YNone;
          timeout_seconds = get step ''timeout'' (YInt 300);
          check_interval = get step ''check_interval'' (YInt 5);
          s1 = logger_info (''Waiting for workflow '' @ sq (py_str target_workflow)
                 @ '' to complete successfully'') s;
          (start_time, s2) = read_time w s1
      in poll w fuel target_workflow timeout_seconds check_interval start_time s2)"

definition trigger_workflow :: "(string \<times> yaml) list \<Rightarrow> state \<Rightarrow> (exc + yaml) \<times> state" where
  "trigger_workflow step s =
     (let target_workflow = get step ''workflow_name'' YNone;
          parameters = get step ''parameters'' (YDict [])
      in case dict_key target_workflow of
           Inl e \<Rightarrow> (Inl e, s)
         | Inr k \<Rightarrow>
             if map_of (workflows s) k = None then
               (Inl (Raise ValueError
                  (''Target workflow '' @ sq (py_str target_workflow) @ '' not found'')), s)
             else
               (Inr (YStr (''Triggered workflow '' @ sq (py_str target_workflow)
                       @ '' with parameters: '' @ py_str parameters)),
                s\<lparr>threads := threads s @ [(target_workflow, parameters)]\<rparr>))"

section \<open>Engine core\<close>

definition dispatch ::
  "world \<Rightarrow> nat \<Rightarrow> yaml \<Rightarrow> (string \<times> yaml) list \<Rightarrow> state \<Rightarrow> ((exc + yaml) \<times> state) option" where
  \<comment> \<open>the \<^verbatim>\<open>if\<close>/\<^verbatim>\<open>elif\<close> chain inside the \<^verbatim>\<open>try\<close> of \<^verbatim>\<open>execute_step\<close>: \<open>Inr\<close> is the
      value assigned to \<^verbatim>\<open>step_result['output']\<close>, \<open>Inl\<close> the exception the branch raises\<close>
  "dispatch w fuel action step s =
     (if action = YStr ''shell'' then
        Some (execute_shell_command w (get step ''command'' (YStr [])) s)
      else if action = YStr ''http_request'' then
        Some (execute_http_request w step s)
      else if action = YStr ''log'' then
        (let message = get step ''message'' (YStr ''Log message'')
         in Some (Inr message, logger_info (''Workflow log: '' @ py_str message) s))
      else if action = YStr ''delay'' then
        (let delay_seconds = get step ''seconds'' (YInt 1)
         in case time_sleep delay_seconds s of
              Inl e \<Rightarrow> Some (Inl e, s)
            | Inr s1 \<Rightarrow> Some (Inr (YStr (''Delayed for '' @ py_str delay_seconds @ '' seconds'')), s1))
      else if action = YStr ''wait_for_workflow'' then
        wait_for_workflow_completion w fuel step s
      else if action = YStr ''trigger_workflow'' then
        Some (trigger_workflow step s)
      else
        Some (Inl (Raise ValueError (''Unknown action: '' @ py_str action)), s))"

definition execute_step ::
  "world \<Rightarrow> nat \<Rightarrow> yaml \<Rightarrow> yaml \<Rightarrow> nat \<Rightarrow> state \<Rightarrow> ((exc + step_result) \<times> state) option" where
  \<comment> \<open>\<open>idx\<close> is where the execution passed by reference sits in the history; the two
      \<^verbatim>\<open>step.get\<close> calls come before the \<^verbatim>\<open>try\<close>, so their exception leaves the function\<close>
  "execute_step w fuel step parameters idx s =
     (case step of
        YDict d \<Rightarrow>
          (let step_name = get d ''name'' (YStr ''unnamed_step'');
               action = get d ''action'' YNone;
               s1 = logger_info (''Executing step: '' @ py_str step_name) s;
               s2 = update_execution idx
                      (\<lambda>e. e\<lparr>ex_logs := ex_logs e @ [''Executing step: '' @ py_str step_name]\<rparr>) s1;
               (start, s3) = now_isoformat w s2;
               step_result = \<lparr>sr_name = step_name, sr_action = action, sr_start_time = start,
                               sr_success = False, sr_output = YStr [], sr_error = [],
                               sr_end_time = None\<rparr>
           in case dispatch w fuel action d s3 of
                None \<Rightarrow> None
              | Some (Inr result, s4) \<Rightarrow>
                  (let (finish, s5) = now_isoformat w s4
                   in Some (Inr (step_result\<lparr>sr_output := result, sr_success := True,
                                   sr_end_time := Some finish\<rparr>), s5))
              | Some (Inl e, s4) \<Rightarrow>
                  (let s5 = logger_error (''Step failed: '' @ py_str step_name @ '' - '' @ str_exc e) s4;
                       (finish, s6) = now_isoformat w s5
                   in Some (Inr (step_result\<lparr>sr_error := str_exc e, sr_success := False,
                                   sr_end_time := Some finish\<rparr>), s6)))
      | v \<Rightarrow> Some (Inl (Raise AttributeError
                  (sq (py_type v) @ '' object has no attribute '' @ sq ''get'')), s))"

fun run_steps ::
  "world \<Rightarrow> nat \<Rightarrow> yaml list \<Rightarrow> yaml \<Rightarrow> nat \<Rightarrow> state \<Rightarrow> ((exc + bool) \<times> state) option" where
  \<comment> \<open>the \<^verbatim>\<open>for\<close> loop of \<^verbatim>\<open>execute_workflow\<close>, lines 70 to 77: \<open>Inr True\<close> when the loop
      runs to its end, \<open>Inr False\<close> when it leaves through the \<^verbatim>\<open>return\<close> of line 77,
      \<open>Inl\<close> when \<^verbatim>\<open>execute_step\<close> raises\<close>
  "run_steps w fuel [] parameters idx s = Some (Inr True, s)"
| "run_steps w fuel (step # rest) parameters idx s =
     (case execute_step w fuel step parameters idx s of
        None \<Rightarrow> None
      | Some (Inl e, s1) \<Rightarrow> Some (Inl e, s1)
      | Some (Inr step_result, s1) \<Rightarrow>
          (let s2 = update_execution idx (\<lambda>e. e\<lparr>ex_steps := ex_steps e @ [step_result]\<rparr>) s1
           in if \<not> sr_success step_result then
                (let s3 = update_execution idx (\<lambda>e. e\<lparr>ex_status := Failed\<rparr>) s2;
                     (finish, s4) = now_isoformat w s3
                 in Some (Inr False, update_execution idx (\<lambda>e. e\<lparr>ex_end_time := Some finish\<rparr>) s4))
              else run_steps w fuel rest parameters idx s2))"

definition try_block ::
  "world \<Rightarrow> nat \<Rightarrow> yaml \<Rightarrow> yaml \<Rightarrow> nat \<Rightarrow> string \<Rightarrow> state \<Rightarrow> ((exc + unit) \<times> state) option" where
  \<comment> \<open>lines 70 to 81, the body of the \<^verbatim>\<open>try\<close>: \<open>Inl\<close> is an exception on its way to the
      handler of line 83\<close>
  "try_block w fuel workflow parameters idx execution_id s =
     (case py_get workflow ''steps'' (YList []) of
        Inl e \<Rightarrow> Some (Inl e, s)
      | Inr steps \<Rightarrow>
          (case py_iter steps of
             Inl e \<Rightarrow> Some (Inl e, s)
           | Inr items \<Rightarrow>
               (case run_steps w fuel items parameters idx s of
                  None \<Rightarrow> None
                | Some (Inl e, s1) \<Rightarrow> Some (Inl e, s1)
                | Some (Inr False, s1) \<Rightarrow> Some (Inr (), s1)
                | Some (Inr True, s1) \<Rightarrow>
                    (let s2 = update_execution idx (\<lambda>e. e\<lparr>ex_status := Completed\<rparr>) s1;
                         (finish, s3) = now_isoformat w s2;
                         s4 = update_execution idx (\<lambda>e. e\<lparr>ex_end_time := Some finish\<rparr>) s3
                     in Some (Inr (), logger_info (''Workflow execution completed: '' @ execution_id) s4)))))"

definition execute_workflow ::
  "world \<Rightarrow> nat \<Rightarrow> yaml \<Rightarrow> yaml \<Rightarrow> state \<Rightarrow> ((exc + execution) \<times> state) option" where
  \<comment> \<open>\<open>Some (Inl e, s)\<close>: the call raises \<open>e\<close>; \<open>Some (Inr x, s)\<close>: it returns the execution \<open>x\<close>;
      \<open>None\<close>: a \<^verbatim>\<open>wait_for_workflow\<close> step is still polling when the bound is used up\<close>
  "execute_workflow w fuel workflow_name parameters s =
     (case dict_key workflow_name of
        Inl e \<Rightarrow> Some (Inl e, s)
      | Inr k \<Rightarrow>
          (case map_of (workflows s) k of
             None \<Rightarrow>
               Some (Inl (Raise ValueError
                 (''Workflow '' @ sq (py_str workflow_name) @ '' not found'')), s)
           | Some workflow \<Rightarrow>
               (let (t, s1) = read_time w s;
                    execution_id = py_str workflow_name @ ''_'' @ show_int (py_int t);
                    (start, s2) = now_isoformat w s1;
                    execution = \<lparr>ex_id = execution_id, ex_workflow_name = workflow_name,
                                  ex_status = Running, ex_start_time = start,
                                  ex_parameters = py_or parameters (YDict []),
                                  ex_steps = [], ex_logs = [],
                                  ex_end_time = None, ex_error = None\<rparr>;
                    idx = length (executions s2);
                    s3 = s2\<lparr>executions := executions s2 @ [execution]\<rparr>;
                    s4 = logger_info (''Starting workflow execution: '' @ execution_id) s3
                in case try_block w fuel workflow parameters idx execution_id s4 of
                     None \<Rightarrow> None
                   | Some (Inr u, s5) \<Rightarrow> Some (Inr (executions s5 ! idx), s5)
                   | Some (Inl e, s5) \<Rightarrow>
                       (let s6 = update_execution idx
                                   (\<lambda>x. x\<lparr>ex_status := Failed, ex_error := Some (str_exc e)\<rparr>) s5;
                            (finish, s7) = now_isoformat w s6;
                            s8 = update_execution idx (\<lambda>x. x\<lparr>ex_end_time := Some finish\<rparr>) s7;
                            s9 = logger_error (''Workflow execution failed: '' @ execution_id
                                   @ '' - '' @ str_exc e) s8
                        in Some (Inr (executions s9 ! idx), s9)))))"

section \<open>Catalog loading and the HTTP routes\<close>

definition load_file :: "string \<times> (exc + yaml) \<Rightarrow> state \<Rightarrow> state" where
  \<comment> \<open>one round of the loop of \<^verbatim>\<open>load_workflows\<close>: the file's path and what \<^verbatim>\<open>open\<close> and
      \<^verbatim>\<open>yaml.safe_load\<close> give for it, a document or an exception\<close>
  "load_file file s =
     (let failed = (\<lambda>e. logger_error (''Error loading workflow '' @ fst file @ '': '' @ str_exc e) s)
      in case snd file of
           Inl e \<Rightarrow> failed e
         | Inr workflow_data \<Rightarrow>
             (case py_subscript workflow_data ''name'' of
                Inl e \<Rightarrow> failed e
              | Inr name \<Rightarrow>
                  (case dict_key name of
                     Inl e \<Rightarrow> failed e
                   | Inr k \<Rightarrow>
                       logger_info (''Loaded workflow: '' @ py_str name)
                         (s\<lparr>workflows := AList.update k workflow_data (workflows s)\<rparr>))))"

definition load_workflows :: "(string \<times> (exc + yaml)) list \<Rightarrow> state \<Rightarrow> state" where
  \<comment> \<open>the files of \<^verbatim>\<open>workflows_dir.glob('*.yml')\<close> in the order the loop visits them\<close>
  "load_workflows files s = foldl (\<lambda>s file. load_file file s) s files"

definition init :: "(string \<times> (exc + yaml)) list \<Rightarrow> state" where
  \<comment> \<open>\<^verbatim>\<open>WorkflowEngine.__init__\<close>\<close>
  "init files =
     load_workflows files \<lparr>workflows = [], executions = [], threads = [], logged = [], tick = 0\<rparr>"

definition list_executions :: "state \<Rightarrow> execution list" where
  \<comment> \<open>the body of \<^verbatim>\<open>GET /api/executions\<close>: \<^verbatim>\<open>engine.executions[-10:]\<close>\<close>
  "list_executions s = py_slice_from (- 10) (executions s)"

definition get_execution :: "state \<Rightarrow> string \<Rightarrow> execution option" where
  \<comment> \<open>\<^verbatim>\<open>GET /api/executions/<execution_id>\<close>: the first execution with that id, or the 404\<close>
  "get_execution s execution_id = find (\<lambda>e. ex_id e = execution_id) (executions s)"

section \<open>Reference notions and sample data\<close>

definition recent_spec :: "nat \<Rightarrow> execution list \<Rightarrow> execution list" where
  \<comment> \<open>the specification's \<^verbatim>\<open>recent(limit)\<close>: the \<open>limit\<close> most recently appended executions,
      most recent first\<close>
  "recent_spec limit history = take limit (rev history)"

definition stamp :: "nat \<Rightarrow> string" where
  "stamp n = ''2024-05-01T12:00:'' @ show_nat (10 + n)"

definition demo_world :: world where
  \<comment> \<open>a clock that advances a tenth of a second per interaction, a child process that
      exits after one second with return code 3, and an unreachable network\<close>
  "demo_world =
     \<lparr>time_time = (\<lambda>n. 100 + of_nat n / 10),
      datetime_now = stamp,
      child = (\<lambda>n command. Exits 1 ''done'' [] 3),
      requests_request = (\<lambda>n m u h j. Inl (Raise External ''connection refused''))\<rparr>"

definition run_a :: execution where
  "run_a = \<lparr>ex_id = ''a_100'', ex_workflow_name = YStr ''a'', ex_status = Completed,
             ex_start_time = ''2024-05-01T12:00:10'', ex_parameters = YDict [],
             ex_steps = [], ex_logs = [], ex_end_time = Some ''2024-05-01T12:00:11'',
             ex_error = None\<rparr>"

definition run_b :: execution where
  "run_b = \<lparr>ex_id = ''b_101'', ex_workflow_name = YStr ''b'', ex_status = Completed,
             ex_start_time = ''2024-05-01T12:00:12'', ex_parameters = YDict [],
             ex_steps = [], ex_logs = [], ex_end_time = Some ''2024-05-01T12:00:13'',
             ex_error = None\<rparr>"

definition two_runs :: state where
  "two_runs = \<lparr>workflows = [], executions = [run_a, run_b], threads = [], logged = [], tick = 0\<rparr>"

text \<open>Two executions of one workflow created within the same clock reading.\<close>

definition tie_first :: execution where
  "tie_first = \<lparr>ex_id = ''a_100'', ex_workflow_name = YStr ''a'', ex_status = Failed,
             ex_start_time = ''2024-05-01T12:00:10'', ex_parameters = YDict [],
             ex_steps = [], ex_logs = [], ex_end_time = Some ''2024-05-01T12:00:11'',
             ex_error = None\<rparr>"

definition tie_second :: execution where
  "tie_second = \<lparr>ex_id = ''a_100'', ex_workflow_name = YStr ''a'', ex_status = Completed,
             ex_start_time = ''2024-05-01T12:00:10'', ex_parameters = YDict [],
             ex_steps = [], ex_logs = [], ex_end_time = Some ''2024-05-01T12:00:12'',
             ex_error = None\<rparr>"

definition catalog_key :: "exc + yaml \<Rightarrow> yaml option" where
  \<comment> \<open>the key under which \<^const>\<open>load_file\<close> stores a document, \<open>None\<close> when one of its
      three steps raises\<close>
  "catalog_key doc =
     (case doc of
        Inl e \<Rightarrow> None
      | Inr workflow_data \<Rightarrow>
          (case py_subscript workflow_data ''name'' of
             Inl e \<Rightarrow> None
           | Inr name \<Rightarrow> (case dict_key name of Inl e \<Rightarrow> None | Inr k \<Rightarrow> Some k)))"

definition nameless_doc :: yaml where
  "nameless_doc = YDict [(''description'', YStr ''no name''),
                         (''steps'', YList [YDict [(''name'', YStr ''a''), (''action'', YStr ''log'')]])]"

definition empty_steps_doc :: yaml where
  "empty_steps_doc = YDict [(''name'', YStr ''w''), (''steps'', YList [])]"

definition sample_files :: "(string \<times> (exc + yaml)) list" where
  "sample_files =
     [(''/app/workflows/a.yml'', Inr nameless_doc),
      (''/app/workflows/w.yml'', Inr empty_steps_doc),
      (''/app/workflows/z.yml'', Inl (Raise External ''mapping values are not allowed here''))]"


definition step_line :: "step_result \<Rightarrow> string" where
  \<comment> \<open>the line \<^verbatim>\<open>execute_step\<close> appends to \<^verbatim>\<open>execution['logs']\<close> for the step of a result\<close>
  "step_line r = ''Executing step: '' @ py_str (sr_name r)"




definition after_steps :: "step_result list \<Rightarrow> execution \<Rightarrow> execution" where
  \<comment> \<open>an execution after the loop has run the steps with results \<open>rs\<close>\<close>
  "after_steps rs e = e\<lparr>ex_steps := ex_steps e @ rs, ex_logs := ex_logs e @ map step_line rs\<rparr>"




definition execution_id :: "world \<Rightarrow> yaml \<Rightarrow> state \<Rightarrow> string" where
  \<comment> \<open>line 54: \<^verbatim>\<open>f"{workflow_name}_{int(time.time())}"\<close>, the clock read at the call\<close>
  "execution_id w workflow_name s =
     py_str workflow_name @ ''_'' @ show_int (py_int (time_time w (tick s)))"

definition new_execution :: "world \<Rightarrow> yaml \<Rightarrow> yaml \<Rightarrow> state \<Rightarrow> execution" where
  \<comment> \<open>the dict of lines 55 to 63, as \<^const>\<open>execute_workflow\<close> appends it to the history\<close>
  "new_execution w workflow_name parameters s =
     \<lparr>ex_id = execution_id w workflow_name s, ex_workflow_name = workflow_name,
      ex_status = Running, ex_start_time = datetime_now w (Suc (tick s)),
      ex_parameters = py_or parameters (YDict []),
      ex_steps = [], ex_logs = [], ex_end_time = None, ex_error = None\<rparr>"


definition finish :: "exc + bool \<Rightarrow> string \<Rightarrow> execution \<Rightarrow> execution" where
  \<comment> \<open>the assignments that end a run: lines 79 and 80 after the last step, lines 75 and 76
      on a failed step, lines 84 to 86 in the handler\<close>
  "finish res t e =
     (case res of
        Inr True \<Rightarrow> e\<lparr>ex_status := Completed, ex_end_time := Some t\<rparr>
      | Inr False \<Rightarrow> e\<lparr>ex_status := Failed, ex_end_time := Some t\<rparr>
      | Inl x \<Rightarrow> e\<lparr>ex_status := Failed, ex_error := Some (str_exc x), ex_end_time := Some t\<rparr>)"

text \<open>Three workflow documents: one whose second step cannot reach its server, one whose
  second step has an action the engine does not know, one whose step is not a mapping.\<close>

definition deploy_doc :: yaml where
  "deploy_doc = YDict [(''name'', YStr ''deploy''),
     (''steps'', YList
        [YDict [(''name'', YStr ''announce''), (''action'', YStr ''log''), (''message'', YStr ''starting'')],
         YDict [(''name'', YStr ''notify''), (''action'', YStr ''http_request''),
                (''url'', YStr ''http://hooks.local/deploy'')],
         YDict [(''name'', YStr ''finish''), (''action'', YStr ''log''), (''message'', YStr ''done'')]])]"

definition cleanup_doc :: yaml where
  "cleanup_doc = YDict [(''name'', YStr ''cleanup''),
     (''steps'', YList
        [YDict [(''name'', YStr ''announce''), (''action'', YStr ''log'')],
         YDict [(''name'', YStr ''purge''), (''action'', YStr ''purge'')],
         YDict [(''name'', YStr ''finish''), (''action'', YStr ''log'')]])]"

definition broken_doc :: yaml where
  "broken_doc = YDict [(''name'', YStr ''broken''), (''steps'', YList [YStr ''echo hello''])]"


definition engine :: state where
  \<comment> \<open>an engine with three workflows in its catalog and one finished execution\<close>
  "engine = \<lparr>workflows = [(YStr ''deploy'', deploy_doc), (YStr ''cleanup'', cleanup_doc),
                            (YStr ''broken'', broken_doc)],
             executions = [run_a], threads = [], logged = [], tick = 0\<rparr>"


section \<open>Properties\<close>

subsection \<open>Listing recent executions\<close>

text \<open>
  C6, as the code has it: the route takes no limit. It returns the last ten executions of
  the history, all of them when there are fewer, in the order they were appended (oldest
  first): the reverse of what \<^const>\<open>recent_spec\<close> gives for the limit 10.
\<close>

theorem list_executions_last_ten:
  "(\<exists>older. executions s = older @ list_executions s)
   \<and> length (list_executions s) = min 10 (length (executions s))
   \<and> list_executions s = rev (recent_spec 10 (executions s))"
proof -
  let ?xs = "executions s"
  have start: "nat (max 0 (int (length ?xs) + - 10)) = length ?xs - 10"
    by simp
  have eq: "list_executions s = drop (length ?xs - 10) ?xs"
    unfolding list_executions_def py_slice_from_def Let_def using start by simp
  have "?xs = take (length ?xs - 10) ?xs @ list_executions s"
    by (simp add: eq)
  then have "\<exists>older. ?xs = older @ list_executions s" ..
  moreover have "length (list_executions s) = min 10 (length ?xs)"
    by (simp add: eq)
  moreover have "list_executions s = rev (recent_spec 10 ?xs)"
    by (simp add: eq recent_spec_def take_rev)
  ultimately show ?thesis by blast
qed

text \<open>
  C6 as stated fails: with two executions in the history and the limit 2, the
  specification's answer starts with the newer one, the route's with the older one.
\<close>

theorem list_executions_not_most_recent_first:
  "list_executions two_runs \<noteq> recent_spec 2 (executions two_runs)"
  by (simp add: list_executions_def py_slice_from_def recent_spec_def two_runs_def
      run_a_def run_b_def)

subsection \<open>Running a workflow that is not in the catalog\<close>

text \<open>
  C8: a name the catalog does not hold makes \<^const>\<open>execute_workflow\<close> raise the
  \<^verbatim>\<open>ValueError\<close> of line 51, and the engine state after the call, the history of
  executions included, is the state before it.
\<close>

theorem execute_workflow_unknown_name:
  assumes "dict_key workflow_name = Inr k" and "map_of (workflows s) k = None"
  shows "execute_workflow w fuel workflow_name parameters s =
           Some (Inl (Raise ValueError (''Workflow '' @ sq (py_str workflow_name) @ '' not found'')), s)"
  using assms by (simp add: execute_workflow_def)

theorem execute_workflow_unknown_name_witness:
  "execute_workflow demo_world 0 (YStr ''nope'') YNone two_runs =
     Some (Inl (Raise ValueError (''Workflow '' @ sq ''nope'' @ '' not found'')), two_runs)
   \<and> executions two_runs = [run_a, run_b]"
proof -
  have k: "dict_key (YStr ''nope'') = Inr (YStr ''nope'')" by simp
  have absent: "map_of (workflows two_runs) (YStr ''nope'') = None"
    by (simp add: two_runs_def)
  show ?thesis
    using execute_workflow_unknown_name [OF k absent, of demo_world 0 YNone]
    by (simp add: two_runs_def)
qed

subsection \<open>The latest execution of a workflow\<close>

lemma py_max_by_split:
  "\<exists>before after. best # xs = before @ py_max_by key best xs # after
     \<and> (\<forall>y\<in>set before. key y < key (py_max_by key best xs))
     \<and> (\<forall>y\<in>set after. key y \<le> key (py_max_by key best xs))"
proof (induction xs arbitrary: best)
  case Nil
  have "[best] = [] @ best # []" by simp
  then show ?case by force
next
  case (Cons x xs)
  define b where "b = (if key best < key x then x else best)"
  define m where "m = py_max_by key b xs"
  from Cons.IH [of b] obtain before after where
    split: "b # xs = before @ m # after"
    and lt: "\<forall>y\<in>set before. key y < key m"
    and le: "\<forall>y\<in>set after. key y \<le> key m"
    unfolding m_def by blast
  have m: "py_max_by key best (x # xs) = m" by (simp add: m_def b_def)
  have b_le: "key b \<le> key m"
  proof (cases before)
    case Nil
    with split show ?thesis by simp
  next
    case (Cons c cs)
    with split have "b \<in> set before" by simp
    with lt show ?thesis by (simp add: less_imp_le)
  qed
  show ?case
  proof (cases "key best < key x")
    case True
    then have bx: "b = x" by (simp add: b_def)
    have "best # x # xs = (best # before) @ m # after"
      using split bx by simp
    moreover have "\<forall>y\<in>set (best # before). key y < key m"
      using True b_le lt bx by auto
    ultimately show ?thesis unfolding m using le by blast
  next
    case False
    then have bb: "b = best" by (simp add: b_def)
    show ?thesis
    proof (cases before)
      case Nil
      with split bb have mb: "m = best" and ax: "after = xs" by simp_all
      have "best # x # xs = [] @ m # (x # xs)" using mb by simp
      moreover have "\<forall>y\<in>set (x # xs). key y \<le> key m"
        using False le ax mb by auto
      ultimately show ?thesis unfolding m by (metis empty_iff empty_set)
    next
      case (Cons c cs)
      with split bb have c: "c = best" and xs: "xs = cs @ m # after" by simp_all
      have best_lt: "key best < key m" using lt Cons c by simp
      have "best # x # xs = (best # x # cs) @ m # after" using xs by simp
      moreover have "\<forall>y\<in>set (best # x # cs). key y < key m"
        using best_lt False lt Cons by auto
      ultimately show ?thesis unfolding m using le by blast
    qed
  qed
qed

lemma filter_eq_appendD:
  "filter P xs = ys @ zs \<Longrightarrow> \<exists>us vs. xs = us @ vs \<and> filter P us = ys \<and> filter P vs = zs"
proof (induction xs arbitrary: ys)
  case Nil
  then show ?case by simp
next
  case (Cons x xs)
  show ?case
  proof (cases "P x \<and> ys = []")
    case True
    with Cons.prems have "x # xs = [] @ (x # xs) \<and> filter P [] = ys \<and> filter P (x # xs) = zs"
      by simp
    then show ?thesis by blast
  next
    case False
    define ys' where "ys' = (if P x then tl ys else ys)"
    from False Cons.prems have "filter P xs = ys' @ zs"
      by (cases ys) (auto simp: ys'_def)
    from Cons.IH [OF this] obtain us vs where
      "xs = us @ vs" "filter P us = ys'" "filter P vs = zs" by blast
    moreover from False Cons.prems have "filter P (x # us) = ys" if "filter P us = ys'"
      using that by (cases ys) (auto simp: ys'_def)
    ultimately have "x # xs = (x # us) @ vs \<and> filter P (x # us) = ys \<and> filter P vs = zs"
      by simp
    then show ?thesis by blast
  qed
qed

lemma latest_execution_split:
  assumes "latest_execution history target_workflow = Some latest"
  shows "\<exists>before after. history = before @ latest # after
           \<and> py_eq_name (ex_workflow_name latest) target_workflow
           \<and> (\<forall>e\<in>set before. py_eq_name (ex_workflow_name e) target_workflow
                 \<longrightarrow> ex_start_time e < ex_start_time latest)
           \<and> (\<forall>e\<in>set after. py_eq_name (ex_workflow_name e) target_workflow
                 \<longrightarrow> ex_start_time e \<le> ex_start_time latest)"
proof -
  let ?P = "\<lambda>e. py_eq_name (ex_workflow_name e) target_workflow"
  from assms obtain x xs where recent: "filter ?P history = x # xs"
    and latest: "latest = py_max_by ex_start_time x xs"
    by (cases "filter ?P history") (auto simp: latest_execution_def)
  from py_max_by_split [of x xs ex_start_time] latest obtain b a where
    split: "x # xs = b @ latest # a"
    and lt: "\<forall>y\<in>set b. ex_start_time y < ex_start_time latest"
    and le: "\<forall>y\<in>set a. ex_start_time y \<le> ex_start_time latest"
    by auto
  from recent split have "filter ?P history = b @ (latest # a)" by simp
  then obtain us vs where h1: "history = us @ vs" and fb: "filter ?P us = b"
    and fv: "filter ?P vs = latest # a"
    using filter_eq_appendD by blast
  from fv obtain ws zs where h2: "vs = ws @ latest # zs" and nw: "\<forall>u\<in>set ws. \<not> ?P u"
    and pl: "?P latest" and fa: "a = filter ?P zs"
    by (auto simp: filter_eq_Cons_iff)
  have "history = (us @ ws) @ latest # zs" using h1 h2 by simp
  moreover have "\<forall>e\<in>set (us @ ws). ?P e \<longrightarrow> ex_start_time e < ex_start_time latest"
    using fb lt nw by auto
  moreover have "\<forall>e\<in>set zs. ?P e \<longrightarrow> ex_start_time e \<le> ex_start_time latest"
    using fa le by auto
  ultimately show ?thesis using pl by blast
qed

lemma latest_execution_None:
  "latest_execution history target_workflow = None
     \<longleftrightarrow> (\<forall>e\<in>set history. \<not> py_eq_name (ex_workflow_name e) target_workflow)"
proof -
  let ?P = "\<lambda>e. py_eq_name (ex_workflow_name e) target_workflow"
  have "latest_execution history target_workflow = None \<longleftrightarrow> filter ?P history = []"
    by (cases "filter ?P history") (simp_all add: latest_execution_def)
  then show ?thesis by (simp add: filter_empty_conv)
qed

text \<open>
  C7, as the code has it. When the history holds no execution of the target name,
  \<^const>\<open>latest_execution\<close> finds none. When it holds one, \<^const>\<open>latest_execution\<close> returns an
  execution of that name with the greatest start time, and when several share that greatest
  start time it is the one appended to the history first: every execution of the name
  before it in the history started strictly earlier, every one after it started no later.
\<close>

theorem latest_execution_first_of_latest:
  "((\<forall>e\<in>set history. \<not> py_eq_name (ex_workflow_name e) target_workflow)
      \<longrightarrow> latest_execution history target_workflow = None)
   \<and> ((\<exists>e\<in>set history. py_eq_name (ex_workflow_name e) target_workflow)
      \<longrightarrow> (\<exists>latest before after.
             latest_execution history target_workflow = Some latest
           \<and> history = before @ latest # after
           \<and> py_eq_name (ex_workflow_name latest) target_workflow
           \<and> (\<forall>e\<in>set before. py_eq_name (ex_workflow_name e) target_workflow
                 \<longrightarrow> ex_start_time e < ex_start_time latest)
           \<and> (\<forall>e\<in>set after. py_eq_name (ex_workflow_name e) target_workflow
                 \<longrightarrow> ex_start_time e \<le> ex_start_time latest)))"
proof (intro conjI impI)
  assume "\<forall>e\<in>set history. \<not> py_eq_name (ex_workflow_name e) target_workflow"
  then show "latest_execution history target_workflow = None"
    by (simp add: latest_execution_None)
next
  assume "\<exists>e\<in>set history. py_eq_name (ex_workflow_name e) target_workflow"
  then have "latest_execution history target_workflow \<noteq> None"
    by (simp add: latest_execution_None)
  then obtain latest where l: "latest_execution history target_workflow = Some latest"
    by blast
  from latest_execution_split [OF l] l
  show "\<exists>latest before after.
             latest_execution history target_workflow = Some latest
           \<and> history = before @ latest # after
           \<and> py_eq_name (ex_workflow_name latest) target_workflow
           \<and> (\<forall>e\<in>set before. py_eq_name (ex_workflow_name e) target_workflow
                 \<longrightarrow> ex_start_time e < ex_start_time latest)
           \<and> (\<forall>e\<in>set after. py_eq_name (ex_workflow_name e) target_workflow
                 \<longrightarrow> ex_start_time e \<le> ex_start_time latest)"
    by blast
qed

text \<open>
  C7 as stated fails: of two executions of one name with equal start times, the one
  appended last is not the one picked.
\<close>

theorem latest_execution_tie_counterexample:
  "latest_execution [tie_first, tie_second] (YStr ''a'') \<noteq> Some tie_second"
  by (simp add: latest_execution_def py_eq_name_def tie_first_def tie_second_def)

theorem latest_execution_first_of_latest_witness:
  "py_eq_name (ex_workflow_name tie_second) (YStr ''a'')
   \<and> latest_execution [tie_first, tie_second] (YStr ''a'') = Some tie_first
   \<and> (\<exists>latest before after.
         latest_execution [tie_first, tie_second] (YStr ''a'') = Some latest
       \<and> [tie_first, tie_second] = before @ latest # after
       \<and> (\<forall>e\<in>set after. py_eq_name (ex_workflow_name e) (YStr ''a'')
             \<longrightarrow> ex_start_time e \<le> ex_start_time latest))
   \<and> latest_execution [run_a, run_b] (YStr ''c'') = None"
proof -
  have p: "py_eq_name (ex_workflow_name tie_second) (YStr ''a'')"
    by (simp add: py_eq_name_def tie_second_def)
  then have some: "\<exists>e\<in>set [tie_first, tie_second]. py_eq_name (ex_workflow_name e) (YStr ''a'')"
    by simp
  have none: "\<forall>e\<in>set [run_a, run_b]. \<not> py_eq_name (ex_workflow_name e) (YStr ''c'')"
    by (simp add: py_eq_name_def run_a_def run_b_def)
  have h: "latest_execution [tie_first, tie_second] (YStr ''a'') = Some tie_first"
    by (simp add: latest_execution_def py_eq_name_def tie_first_def tie_second_def)
  from latest_execution_first_of_latest [of "[tie_first, tie_second]" "YStr ''a''"] some
  have "\<exists>latest before after.
         latest_execution [tie_first, tie_second] (YStr ''a'') = Some latest
       \<and> [tie_first, tie_second] = before @ latest # after
       \<and> (\<forall>e\<in>set after. py_eq_name (ex_workflow_name e) (YStr ''a'')
             \<longrightarrow> ex_start_time e \<le> ex_start_time latest)"
    by blast
  moreover from latest_execution_first_of_latest [of "[run_a, run_b]" "YStr ''c''"] none
  have "latest_execution [run_a, run_b] (YStr ''c'') = None" by blast
  ultimately show ?thesis using p h by blast
qed

subsection \<open>Loading the catalog\<close>

lemma load_file_skip:
  "catalog_key (snd file) = None \<Longrightarrow>
     workflows (load_file file s) = workflows s
     \<and> (\<exists>msg. logged (load_file file s) = logged s @ [(''ERROR'', msg)])"
  by (auto simp: catalog_key_def load_file_def logger_error_def Let_def split: sum.splits)

lemma load_file_store:
  "catalog_key (snd file) = Some k \<Longrightarrow>
     \<exists>data. snd file = Inr data
       \<and> map_of (workflows (load_file file s)) = (map_of (workflows s))(k \<mapsto> data)"
  by (auto simp: catalog_key_def load_file_def logger_info_def Let_def update_conv'
      split: sum.splits)

lemma load_workflows_snoc:
  "load_workflows (files @ [file]) s = load_file file (load_workflows files s)"
  by (simp add: load_workflows_def)

lemma load_workflows_lookup:
  "map_of (workflows (load_workflows files s)) k =
     (case find (\<lambda>file. catalog_key (snd file) = Some k) (rev files) of
        None \<Rightarrow> map_of (workflows s) k
      | Some file \<Rightarrow> (case snd file of Inl e \<Rightarrow> None | Inr data \<Rightarrow> Some data))"
proof (induction files rule: rev_induct)
  case Nil
  show ?case by (simp add: load_workflows_def)
next
  case (snoc f files)
  show ?case
  proof (cases "catalog_key (snd f)")
    case None
    with load_file_skip [OF None, of "load_workflows files s"] snoc show ?thesis
      by (simp add: load_workflows_snoc)
  next
    case (Some k')
    from load_file_store [OF Some, of "load_workflows files s"] obtain data where
      d: "snd f = Inr data"
      and m: "map_of (workflows (load_file f (load_workflows files s)))
                = (map_of (workflows (load_workflows files s)))(k' \<mapsto> data)"
      by blast
    show ?thesis
      using snoc Some d m by (simp add: load_workflows_snoc)
  qed
qed

text \<open>
  C9, as the code has it. After loading, the catalog holds under each key the document of
  the last file that \<^const>\<open>load_file\<close> stores under that key, whatever files that raise stand
  before, between or after. A file whose loading raises (it cannot be read or parsed, it has
  no \<^verbatim>\<open>name\<close>, its name is unhashable) leaves the catalog as it is and logs one error; a
  document without a name is such a file. A document with a name is stored whatever its
  steps are, an empty list included: there is no check of the steps and no
  \<^verbatim>\<open>DefinitionError\<close>.
\<close>

theorem load_workflows_lenient:
  "map_of (workflows (load_workflows files s)) k =
     (case find (\<lambda>file. catalog_key (snd file) = Some k) (rev files) of
        None \<Rightarrow> map_of (workflows s) k
      | Some file \<Rightarrow> (case snd file of Inl e \<Rightarrow> None | Inr data \<Rightarrow> Some data))
   \<and> (catalog_key (snd file) = None \<longrightarrow>
        workflows (load_file file s) = workflows s
        \<and> (\<exists>msg. logged (load_file file s) = logged s @ [(''ERROR'', msg)]))
   \<and> (map_of d ''name'' = None \<longrightarrow> catalog_key (Inr (YDict d)) = None)
   \<and> (map_of d ''name'' = Some (YStr n) \<longrightarrow> catalog_key (Inr (YDict d)) = Some (YStr n))"
  using load_workflows_lookup [of files s k] load_file_skip [of "file" s]
  by (simp add: catalog_key_def)

text \<open>
  C9 as stated fails: a document with a name and an empty step list is loaded, with no
  error logged.
\<close>

theorem load_empty_steps_counterexample:
  "map_of (workflows (init [(''/app/workflows/w.yml'', Inr empty_steps_doc)])) (YStr ''w'')
     = Some empty_steps_doc
   \<and> logged (init [(''/app/workflows/w.yml'', Inr empty_steps_doc)])
     = [(''INFO'', ''Loaded workflow: w'')]"
  by (simp add: init_def load_workflows_def load_file_def logger_info_def empty_steps_doc_def)

theorem load_workflows_lenient_witness:
  "map_of [(''description'', YStr ''no name'')] ''name'' = None
   \<and> catalog_key (Inr nameless_doc) = None
   \<and> catalog_key (Inr empty_steps_doc) = Some (YStr ''w'')
   \<and> workflows (load_file (''/app/workflows/a.yml'', Inr nameless_doc) (init [])) = []
   \<and> map_of (workflows (init sample_files)) (YStr ''w'') = Some empty_steps_doc"
proof -
  have none: "map_of [(''description'', YStr ''no name''),
      (''steps'', YList [YDict [(''name'', YStr ''a''), (''action'', YStr ''log'')]])] ''name'' = None"
    by simp
  have some: "map_of [(''name'', YStr ''w''), (''steps'', YList [])] ''name'' = Some (YStr ''w'')"
    by simp
  note t = load_workflows_lenient
    [of sample_files "\<lparr>workflows = [], executions = [], threads = [], logged = [], tick = 0\<rparr>"
        "YStr ''w''" "(''/app/workflows/a.yml'', Inr nameless_doc)"
        "[(''description'', YStr ''no name''),
      (''steps'', YList [YDict [(''name'', YStr ''a''), (''action'', YStr ''log'')]])]"]
  note u = load_workflows_lenient
    [of "[]" "init []" "YStr ''w''" "(''/app/workflows/a.yml'', Inr nameless_doc)"
        "[(''name'', YStr ''w''), (''steps'', YList [])]" "''w''"]
  have k1: "catalog_key (Inr nameless_doc) = None"
    using t none by (simp add: nameless_doc_def)
  have k2: "catalog_key (Inr empty_steps_doc) = Some (YStr ''w'')"
    using u some by (simp add: empty_steps_doc_def)
  have k3: "catalog_key (Inl (Raise External ''mapping values are not allowed here'')) = None"
    by (simp add: catalog_key_def)
  have w: "workflows (load_file (''/app/workflows/a.yml'', Inr nameless_doc) (init [])) = []"
    using u k1 by (simp add: init_def load_workflows_def)
  have m: "map_of (workflows (init sample_files)) (YStr ''w'') = Some empty_steps_doc"
    using t k1 k2 k3 by (simp add: init_def sample_files_def)
  show ?thesis using none k1 k2 w m by (simp add: nameless_doc_def)
qed

subsection \<open>What a run leaves in the history\<close>















lemmas engine_defs = execute_workflow_def try_block_def execute_step_def dispatch_def
  update_execution_def logger_info_def logger_error_def read_time_def now_isoformat_def
  get_def py_or_def sq_def show_int_def py_int_def execute_http_request_def py_upper_def

lemma show_nat_100: "show_nat 100 = ''100''"
  by (simp add: show_nat.simps digit_char_def)

lemma stamps: "stamp 0 = ''2024-05-01T12:00:10''" "stamp 1 = ''2024-05-01T12:00:11''"
  "stamp 2 = ''2024-05-01T12:00:12''" "stamp 3 = ''2024-05-01T12:00:13''"
  "stamp 4 = ''2024-05-01T12:00:14''" "stamp 5 = ''2024-05-01T12:00:15''"
  "stamp 6 = ''2024-05-01T12:00:16''" "stamp 7 = ''2024-05-01T12:00:17''"
  by (simp_all add: stamp_def show_nat.simps digit_char_def)

lemma stamps_Suc: "stamp (Suc 0) = ''2024-05-01T12:00:11''"
  "stamp (Suc (Suc 0)) = ''2024-05-01T12:00:12''"
  "stamp (Suc (Suc (Suc 0))) = ''2024-05-01T12:00:13''"
  "stamp (Suc (Suc (Suc (Suc 0)))) = ''2024-05-01T12:00:14''"
  "stamp (Suc (Suc (Suc (Suc (Suc 0))))) = ''2024-05-01T12:00:15''"
  "stamp (Suc (Suc (Suc (Suc (Suc (Suc 0)))))) = ''2024-05-01T12:00:16''"
  "stamp (Suc (Suc (Suc (Suc (Suc (Suc (Suc 0))))))) = ''2024-05-01T12:00:17''"
  using stamps by (simp_all add: eval_nat_numeral)


lemma after_steps_sel [simp]:
  "ex_steps (after_steps rs e) = ex_steps e @ rs"
  "ex_logs (after_steps rs e) = ex_logs e @ map step_line rs"
  "ex_id (after_steps rs e) = ex_id e"
  "ex_workflow_name (after_steps rs e) = ex_workflow_name e"
  "ex_status (after_steps rs e) = ex_status e"
  "ex_error (after_steps rs e) = ex_error e"
  "ex_end_time (after_steps rs e) = ex_end_time e"
  by (simp_all add: after_steps_def)

lemma finish_sel [simp]:
  "ex_steps (finish res t e) = ex_steps e"
  "ex_logs (finish res t e) = ex_logs e"
  "ex_id (finish res t e) = ex_id e"
  "ex_workflow_name (finish res t e) = ex_workflow_name e"
  "ex_status (finish res t e) = (if res = Inr True then Completed else Failed)"
  "ex_error (finish res t e) = (case res of Inl x \<Rightarrow> Some (str_exc x) | Inr b \<Rightarrow> ex_error e)"
  "ex_end_time (finish res t e) = Some t"
  by (simp_all add: finish_def split: sum.splits bool.splits)

lemma new_execution_sel [simp]:
  "ex_steps (new_execution w workflow_name parameters s) = []"
  "ex_logs (new_execution w workflow_name parameters s) = []"
  "ex_id (new_execution w workflow_name parameters s) = execution_id w workflow_name s"
  "ex_workflow_name (new_execution w workflow_name parameters s) = workflow_name"
  "ex_error (new_execution w workflow_name parameters s) = None"
  by (simp_all add: new_execution_def)









lemma broken_run:
  "map_option fst (execute_workflow demo_world 0 (YStr ''broken'') YNone engine) =
     Some (Inr \<lparr>ex_id = ''broken_100'', ex_workflow_name = YStr ''broken'', ex_status = Failed,
       ex_start_time = ''2024-05-01T12:00:11'', ex_parameters = YDict [],
       ex_steps = [], ex_logs = [],
       ex_end_time = Some ''2024-05-01T12:00:12'',
       ex_error = Some (sq ''str'' @ '' object has no attribute '' @ sq ''get'')\<rparr>)"
  by (simp add: engine_def engine_defs demo_world_def broken_doc_def show_nat_100 stamps
      stamps_Suc Let_def)

subsection \<open>Steps with an unknown action\<close>



subsection \<open>The first failed step stops the run\<close>




subsection \<open>Exceptions that reach the handler of the run\<close>




end
